theory Spec2Isabelle
  imports Complex_Main
begin

section \<open>Data model of GraphEditor.tsx\<close>

text \<open>
  The editor keeps a list of diagram nodes, a list of edges, a rate table and an id
  counter (React state and one ref of the component \<open>GraphEditor\<close>). The closed string
  unions of the source are datatypes; objects are records; an optional property
  (\<open>type?: string\<close>) is an \<open>option\<close>, \<open>None\<close> standing for an absent property.

  A finite JavaScript number is modelled by a real (rounding of doubles is not modelled);
  the non-finite values the code itself produces (\<open>Infinity\<close> as the seed of the
  bounding-box reduction, \<open>NaN\<close> from arithmetic on \<open>undefined\<close>) are constructors of
  \<open>number\<close>.
\<close>

datatype Difficulty = simple | medium | complex

datatype YesNo = yes | no

datatype CreateType = new | adapt

datatype number = NaN | NegInfinity | Finite real | Infinity

record XYPosition =
  pos_x :: real
  pos_y :: real

record NodeData =
  label :: string
  comment :: string
  image :: "string option"
  uploading :: YesNo
  designType :: CreateType
  designDifficulty :: Difficulty
  codingType :: CreateType
  codingDifficulty :: Difficulty

text \<open>
  A diagram node (\<open>Node<NodeData>\<close> of the rendering library): the fields the source
  reads or writes. \<open>width\<close> and \<open>height\<close> are assigned by the rendering surface and
  may be absent. A node record of a loaded document is an object of the same shape: the
  loader copies every property it carries.
\<close>

record Node =
  node_id :: string
  node_type :: "string option"
  position :: XYPosition
  data :: NodeData
  width :: "real option"
  height :: "real option"

record EdgeData =
  edge_comment :: "string option"

text \<open>\<open>PersistEdge\<close> of the source; the edges of the editor state carry the same fields.\<close>

record Edge =
  edge_id :: string
  source :: string
  target :: string
  edge_type :: "string option"
  edge_data :: "EdgeData option"
  edge_label :: "string option"

text \<open>
  The parsed document (\<open>PersistFile\<close>). \<open>JSON.parse\<close> checks nothing beyond syntax, so
  each top-level key may be missing: \<open>None\<close>.
\<close>

record PersistFile =
  doc_nodes :: "Node list option"
  doc_edges :: "Edge list option"
  doc_rates :: "(string \<rightharpoonup> real) option"

record GraphState =
  nodes :: "Node list"
  edges :: "Edge list"
  rates :: "string \<rightharpoonup> real"
  idCounter :: nat
  selectedNodeId :: "string option"
  selectedEdge :: "string option"
  edgeComment :: string

subsection \<open>Arithmetic on numbers\<close>

fun js_add :: "number \<Rightarrow> number \<Rightarrow> number" where
  "js_add NaN _ = NaN"
| "js_add _ NaN = NaN"
| "js_add (Finite a) (Finite b) = Finite (a + b)"
| "js_add Infinity NegInfinity = NaN"
| "js_add NegInfinity Infinity = NaN"
| "js_add Infinity _ = Infinity"
| "js_add _ Infinity = Infinity"
| "js_add NegInfinity _ = NegInfinity"
| "js_add _ NegInfinity = NegInfinity"

fun js_neg :: "number \<Rightarrow> number" where
  "js_neg NaN = NaN"
| "js_neg (Finite a) = Finite (- a)"
| "js_neg Infinity = NegInfinity"
| "js_neg NegInfinity = Infinity"

definition js_sub :: "number \<Rightarrow> number \<Rightarrow> number" where
  "js_sub a b = js_add a (js_neg b)"

fun js_mul :: "number \<Rightarrow> number \<Rightarrow> number" where
  "js_mul NaN _ = NaN"
| "js_mul _ NaN = NaN"
| "js_mul (Finite a) (Finite b) = Finite (a * b)"
| "js_mul (Finite a) Infinity =
     (if a = 0 then NaN else if 0 < a then Infinity else NegInfinity)"
| "js_mul (Finite a) NegInfinity =
     (if a = 0 then NaN else if 0 < a then NegInfinity else Infinity)"
| "js_mul Infinity (Finite b) =
     (if b = 0 then NaN else if 0 < b then Infinity else NegInfinity)"
| "js_mul NegInfinity (Finite b) =
     (if b = 0 then NaN else if 0 < b then NegInfinity else Infinity)"
| "js_mul Infinity Infinity = Infinity"
| "js_mul NegInfinity NegInfinity = Infinity"
| "js_mul Infinity NegInfinity = NegInfinity"
| "js_mul NegInfinity Infinity = NegInfinity"

text \<open>\<open>Math.min\<close> and \<open>Math.max\<close> of two arguments.\<close>

fun Math_min :: "number \<Rightarrow> number \<Rightarrow> number" where
  "Math_min NaN _ = NaN"
| "Math_min _ NaN = NaN"
| "Math_min NegInfinity _ = NegInfinity"
| "Math_min _ NegInfinity = NegInfinity"
| "Math_min Infinity b = b"
| "Math_min a Infinity = a"
| "Math_min (Finite a) (Finite b) = Finite (min a b)"

fun Math_max :: "number \<Rightarrow> number \<Rightarrow> number" where
  "Math_max NaN _ = NaN"
| "Math_max _ NaN = NaN"
| "Math_max Infinity _ = Infinity"
| "Math_max _ Infinity = Infinity"
| "Math_max NegInfinity b = b"
| "Math_max a NegInfinity = a"
| "Math_max (Finite a) (Finite b) = Finite (max a b)"

text \<open>
  A template literal \<open>`${n}`\<close> of a non-negative integer: its decimal digits.
\<close>

definition digit :: "nat \<Rightarrow> char" where
  "digit d = (''0123456789'' ! d)"

fun show_nat :: "nat \<Rightarrow> string" where
  "show_nat n = (if n < 10 then [digit n] else show_nat (n div 10) @ [digit (n mod 10)])"

subsection \<open>Constants\<close>

definition WORK_TYPES :: "string list" where
  "WORK_TYPES =
     [''Design-simple'', ''Design-medium'', ''Design-complex'',
      ''Coding-simple'', ''Coding-medium'', ''Coding-complex'']"

definition DEFAULT_RATES :: "string \<rightharpoonup> real" where
  "DEFAULT_RATES =
     [''Design-simple'' \<mapsto> 100, ''Design-medium'' \<mapsto> 200, ''Design-complex'' \<mapsto> 300,
      ''Coding-simple'' \<mapsto> 150, ''Coding-medium'' \<mapsto> 300, ''Coding-complex'' \<mapsto> 450]"

text \<open>The string a \<open>Difficulty\<close> value is, as it appears in a work-type key.\<close>

fun difficulty_string :: "Difficulty \<Rightarrow> string" where
  "difficulty_string simple = ''simple''"
| "difficulty_string medium = ''medium''"
| "difficulty_string complex = ''complex''"

section \<open>Helpers\<close>

text \<open>
  \<open>createChildNode(parent, id, offsetY = 150)\<close>. The source reads \<open>parent.position\<close>
  with a fallback to the origin when it is absent; the type of a node makes the position
  mandatory, and so does the record.
\<close>

definition createChildNode :: "Node \<Rightarrow> string \<Rightarrow> real \<Rightarrow> Node" where
  "createChildNode parent ident offsetY =
     \<lparr> node_id = ident,
       node_type = Some ''graphNode'',
       position = \<lparr> pos_x = pos_x (position parent), pos_y = pos_y (position parent) + offsetY \<rparr>,
       data = \<lparr> label = ''Node '' @ ident,
                comment = [],
                image = None,
                uploading = no,
                designType = new,
                designDifficulty = simple,
                codingType = new,
                codingDifficulty = simple \<rparr>,
       width = None,
       height = None \<rparr>"

definition default_offsetY :: real where
  "default_offsetY = 150"

section \<open>Estimate helpers\<close>

record SummaryRow =
  work :: string
  rate :: "real option"
  qty :: "number option"
  row_sum :: number

text \<open>
  \<open>counts[k] += 1\<close> on an object: a key that is missing reads as \<open>undefined\<close>, and
  \<open>undefined + 1\<close> is \<open>NaN\<close>.
\<close>

definition increment :: "(string \<rightharpoonup> number) \<Rightarrow> string \<Rightarrow> (string \<rightharpoonup> number)" where
  "increment counts k =
     counts(k \<mapsto> js_add (case counts k of None \<Rightarrow> NaN | Some c \<Rightarrow> c) (Finite 1))"

text \<open>The body of the \<open>forEach\<close> of \<open>buildSummary\<close>: one node's two contributions.\<close>

definition count_node :: "CreateType option \<Rightarrow> (string \<rightharpoonup> number) \<Rightarrow> Node \<Rightarrow> (string \<rightharpoonup> number)" where
  "count_node filter' counts n =
     (let d = data n;
          counts1 = (if filter' = None \<or> Some (designType d) = filter'
                     then increment counts (''Design-'' @ difficulty_string (designDifficulty d))
                     else counts);
          counts2 = (if filter' = None \<or> Some (codingType d) = filter'
                     then increment counts1 (''Coding-'' @ difficulty_string (codingDifficulty d))
                     else counts1)
      in counts2)"

definition initial_counts :: "string \<rightharpoonup> number" where
  "initial_counts = map_of (map (\<lambda>k. (k, Finite 0)) WORK_TYPES)"

definition summary_row :: "(string \<rightharpoonup> real) \<Rightarrow> (string \<rightharpoonup> number) \<Rightarrow> string \<Rightarrow> SummaryRow" where
  "summary_row rs counts wt =
     \<lparr> work = wt,
       rate = rs wt,
       qty = counts wt,
       row_sum = (case counts wt of
                    None \<Rightarrow> NaN
                  | Some c \<Rightarrow> (case rs wt of None \<Rightarrow> NaN | Some r \<Rightarrow> js_mul c (Finite r))) \<rparr>"

definition buildSummary :: "Node list \<Rightarrow> (string \<rightharpoonup> real) \<Rightarrow> CreateType option \<Rightarrow> SummaryRow list" where
  "buildSummary ns rs filter' =
     (let counts = foldl (count_node filter') initial_counts ns
      in map (summary_row rs counts) WORK_TYPES)"

text \<open>The total of \<open>SummaryTable\<close>: \<open>rows.reduce((a, r) => a + r.sum, 0)\<close>.\<close>

definition total :: "SummaryRow list \<Rightarrow> number" where
  "total rows = foldl (\<lambda>a r. js_add a (row_sum r)) (Finite 0) rows"

text \<open>
  The quantity a summary reports for a bucket: the \<open>qty\<close> of the row of that work type
  (\<open>NaN\<close> when there is no such row or it has no quantity).
\<close>

definition quantity :: "SummaryRow list \<Rightarrow> string \<Rightarrow> number" where
  "quantity rows k =
     (case find (\<lambda>r. work r = k) rows of
        None \<Rightarrow> NaN
      | Some r \<Rightarrow> (case qty r of None \<Rightarrow> NaN | Some q \<Rightarrow> q))"

text \<open>A node with its uploading flag erased: what two nodes that differ only there share.\<close>

definition erase_uploading :: "Node \<Rightarrow> Node" where
  "erase_uploading n = n\<lparr> data := (data n)\<lparr> uploading := no \<rparr> \<rparr>"

section \<open>The component's state and its handlers\<close>

text \<open>
  The initial values of the component's state: one node \<open>"1"\<close>, made by
  \<open>createChildNode\<close> from a pseudo parent at \<open>(250, 25)\<close> with offset \<open>0\<close>, no edges,
  a copy of the default rates and the counter at \<open>2\<close>. The pseudo parent of the source has
  an id and a position only; \<open>createChildNode\<close> reads nothing else of it.
\<close>

definition root_parent :: Node where
  "root_parent =
     \<lparr> node_id = ''root'',
       node_type = None,
       position = \<lparr> pos_x = 250, pos_y = 25 \<rparr>,
       data = \<lparr> label = [], comment = [], image = None, uploading = no,
                designType = new, designDifficulty = simple,
                codingType = new, codingDifficulty = simple \<rparr>,
       width = None,
       height = None \<rparr>"

definition initial_state :: GraphState where
  "initial_state =
     \<lparr> nodes = [createChildNode root_parent ''1'' 0],
       edges = [],
       rates = DEFAULT_RATES,
       idCounter = 2,
       selectedNodeId = None,
       selectedEdge = None,
       edgeComment = [] \<rparr>"

text \<open>\<open>selectedNode = nodes.find((n) => n.id === selectedNodeId) ?? null\<close>.\<close>

definition selectedNode :: "GraphState \<Rightarrow> Node option" where
  "selectedNode st =
     (case selectedNodeId st of
        None \<Rightarrow> None
      | Some i \<Rightarrow> find (\<lambda>n. node_id n = i) (nodes st))"

text \<open>\<open>selectedNode ?? nodes[0]\<close>: \<open>None\<close> is \<open>undefined\<close>, the first element of an empty list.\<close>

definition parent_node :: "GraphState \<Rightarrow> Node option" where
  "parent_node st =
     (case selectedNode st of
        Some p \<Rightarrow> Some p
      | None \<Rightarrow> (case nodes st of [] \<Rightarrow> None | n # _ \<Rightarrow> Some n))"

text \<open>
  What a handler leaves behind: the state it produced, or the state at the point where
  it threw a \<open>TypeError\<close> (reading a property of \<open>undefined\<close>).
\<close>

datatype outcome = Thrown GraphState | Done GraphState

text \<open>
  \<open>addNode\<close>. The counter is read and incremented before \<open>createChildNode\<close> is called;
  with no node at all the parent is \<open>undefined\<close> and \<open>createChildNode\<close> throws on
  \<open>parent.position\<close>.
\<close>

definition addNode :: "GraphState \<Rightarrow> outcome" where
  "addNode st =
     (let parent = parent_node st;
          newId = show_nat (idCounter st);
          st1 = st\<lparr> idCounter := idCounter st + 1 \<rparr>
      in case parent of
           None \<Rightarrow> Thrown st1
         | Some p \<Rightarrow>
             Done (st1\<lparr> nodes := nodes st @ [createChildNode p newId default_offsetY],
                         edges := edges st @
                           [\<lparr> edge_id = ''e'' @ node_id p @ ''-'' @ newId,
                              source = node_id p,
                              target = newId,
                              edge_type = Some ''smoothstep'',
                              edge_data = None,
                              edge_label = None \<rparr>] \<rparr>))"

text \<open>\<open>handleRateChange\<close>: \<open>{ ...prev, [work]: val }\<close>.\<close>

definition handleRateChange :: "GraphState \<Rightarrow> string \<Rightarrow> real \<Rightarrow> GraphState" where
  "handleRateChange st w v = st\<lparr> rates := (rates st)(w \<mapsto> v) \<rparr>"

text \<open>
  The edge-comment dialog: a double click selects the edge and copies its comment
  (\<open>edge.data?.comment || ""\<close>); the dialog's button writes the text to the selected
  edge's \<open>data.comment\<close> and \<open>label\<close> and closes the dialog.
\<close>

definition onEdgeDoubleClick :: "GraphState \<Rightarrow> Edge \<Rightarrow> GraphState" where
  "onEdgeDoubleClick st e =
     st\<lparr> selectedEdge := Some (edge_id e),
         edgeComment := (case edge_data e of
                           None \<Rightarrow> []
                         | Some d \<Rightarrow> (case edge_comment d of None \<Rightarrow> [] | Some c \<Rightarrow> c)) \<rparr>"

definition saveEdgeComment :: "GraphState \<Rightarrow> GraphState" where
  "saveEdgeComment st =
     st\<lparr> edges :=
           map (\<lambda>e. if Some (edge_id e) = selectedEdge st
                     then e\<lparr> edge_data :=
                               Some ((case edge_data e of
                                        None \<Rightarrow> \<lparr> edge_comment = None \<rparr>
                                      | Some d \<Rightarrow> d)\<lparr> edge_comment := Some (edgeComment st) \<rparr>),
                             edge_label := Some (edgeComment st) \<rparr>
                     else e)
               (edges st),
         selectedEdge := None \<rparr>"

section \<open>Export geometry\<close>

record Bounds =
  minX :: number
  minY :: number
  maxX :: number
  maxY :: number

text \<open>The reducer of \<open>exportImage\<close>; a node without a reported size counts as 250 by 150.\<close>

definition bounds_step :: "Bounds \<Rightarrow> Node \<Rightarrow> Bounds" where
  "bounds_step acc n =
     (let w = (case width n of None \<Rightarrow> 250 | Some v \<Rightarrow> v);
          h = (case height n of None \<Rightarrow> 150 | Some v \<Rightarrow> v)
      in \<lparr> minX = Math_min (minX acc) (Finite (pos_x (position n))),
            minY = Math_min (minY acc) (Finite (pos_y (position n))),
            maxX = Math_max (maxX acc) (Finite (pos_x (position n) + w)),
            maxY = Math_max (maxY acc) (Finite (pos_y (position n) + h)) \<rparr>)"

definition node_bounds :: "Node list \<Rightarrow> Bounds" where
  "node_bounds ns =
     foldl bounds_step
       \<lparr> minX = Infinity, minY = Infinity, maxX = NegInfinity, maxY = NegInfinity \<rparr> ns"

definition PAD :: real where
  "PAD = 64"

definition fullW :: "Node list \<Rightarrow> number" where
  "fullW ns = (let b = node_bounds ns in js_add (js_sub (maxX b) (minX b)) (Finite (PAD * 2)))"

definition fullH :: "Node list \<Rightarrow> number" where
  "fullH ns = (let b = node_bounds ns in js_add (js_sub (maxY b) (minY b)) (Finite (PAD * 2)))"

text \<open>The translation given to the viewport layer: \<open>(-b.minX + PAD, -b.minY + PAD)\<close>.\<close>

definition viewport_translate :: "Node list \<Rightarrow> number \<times> number" where
  "viewport_translate ns =
     (let b = node_bounds ns
      in (js_add (js_neg (minX b)) (Finite PAD), js_add (js_neg (minY b)) (Finite PAD)))"

section \<open>Save and load\<close>

text \<open>
  \<open>handleSave\<close> builds the payload and hands it to \<open>JSON.stringify\<close>. The document is
  the payload as a reader of the written text sees it: a property whose value is
  \<open>undefined\<close> (the \<open>type\<close> of an edge that has none) is not written.
\<close>

definition handleSave :: "GraphState \<Rightarrow> PersistFile" where
  "handleSave st =
     \<lparr> doc_nodes = Some (map (\<lambda>n. \<lparr> node_id = node_id n,
                                      node_type = None,
                                      position = position n,
                                      data = data n,
                                      width = None,
                                      height = None \<rparr>) (nodes st)),
       doc_edges = Some (map (\<lambda>e. \<lparr> edge_id = edge_id e,
                                      source = source e,
                                      target = target e,
                                      edge_type = edge_type e,
                                      edge_data = None,
                                      edge_label = None \<rparr>) (edges st)),
       doc_rates = Some (rates st) \<rparr>"

text \<open>
  \<open>{ type: "graphNode", ...n }\<close>: the spread comes second, so a \<open>type\<close> the record
  carries replaces the marker. \<open>{ ...e, type: e.type ?? "smoothstep" }\<close>.
\<close>

definition enrich_node :: "Node \<Rightarrow> Node" where
  "enrich_node n =
     n\<lparr> node_type := (case node_type n of None \<Rightarrow> Some ''graphNode'' | Some t \<Rightarrow> Some t) \<rparr>"

definition enrich_edge :: "Edge \<Rightarrow> Edge" where
  "enrich_edge e =
     e\<lparr> edge_type := Some (case edge_type e of None \<Rightarrow> ''smoothstep'' | Some t \<Rightarrow> t) \<rparr>"

datatype LoadOutcome = NoFile | InvalidFile | Loaded

text \<open>
  The body of the \<open>try\<close> after a successful parse. \<open>data.nodes.map\<close> throws when the
  document has no \<open>nodes\<close>, before any state is set; \<open>data.edges.map\<close> throws when it
  has no \<open>edges\<close>, after \<open>setNodes\<close> has been called. The \<open>catch\<close> logs
  \<open>Invalid file\<close> and keeps what was set.
\<close>

definition load_document :: "GraphState \<Rightarrow> PersistFile \<Rightarrow> LoadOutcome \<times> GraphState" where
  "load_document st d =
     (case doc_nodes d of
        None \<Rightarrow> (InvalidFile, st)
      | Some ns \<Rightarrow>
          (let st1 = st\<lparr> nodes := map enrich_node ns \<rparr>
           in case doc_edges d of
                None \<Rightarrow> (InvalidFile, st1)
              | Some es \<Rightarrow>
                  (Loaded,
                   st1\<lparr> edges := map enrich_edge es,
                        rates := (case doc_rates d of None \<Rightarrow> DEFAULT_RATES | Some r \<Rightarrow> r),
                        idCounter := length ns + 1 \<rparr>)))"

text \<open>
  \<open>handleFileChange\<close>, with the reader's callback run at once. \<open>JSON_parse\<close> is the
  platform's parser followed by the cast to \<open>PersistFile\<close>: \<open>None\<close> when it throws a
  \<open>SyntaxError\<close>. The third argument is the text of the chosen file, \<open>None\<close> when no
  file was chosen.
\<close>

definition handleFileChange ::
  "(string \<Rightarrow> PersistFile option) \<Rightarrow> GraphState \<Rightarrow> string option \<Rightarrow> LoadOutcome \<times> GraphState" where
  "handleFileChange JSON_parse st file =
     (case file of
        None \<Rightarrow> (NoFile, st)
      | Some text \<Rightarrow>
          (case JSON_parse text of
             None \<Rightarrow> (InvalidFile, st)
           | Some d \<Rightarrow> load_document st d))"

subsection \<open>Predicates of the claims\<close>

text \<open>A rate table is fully specified when each of the six work types has a rate.\<close>

definition fully_specified :: "(string \<rightharpoonup> real) \<Rightarrow> bool" where
  "fully_specified rs = list_all (\<lambda>k. rs k \<noteq> None) WORK_TYPES"

text \<open>No edge dangles when both ends of every edge are ids of nodes.\<close>

definition no_dangling_edges :: "GraphState \<Rightarrow> bool" where
  "no_dangling_edges st =
     list_all (\<lambda>e. source e \<in> set (map node_id (nodes st)) \<and>
                    target e \<in> set (map node_id (nodes st))) (edges st)"

subsection \<open>Counting, as the summary is specified\<close>

text \<open>
  The two keys a node can contribute to, its contribution to a bucket under a filter
  (at most one for each phase), and the number of contributions of a node list.
\<close>

definition design_key :: "Node \<Rightarrow> string" where
  "design_key n = ''Design-'' @ difficulty_string (designDifficulty (data n))"

definition coding_key :: "Node \<Rightarrow> string" where
  "coding_key n = ''Coding-'' @ difficulty_string (codingDifficulty (data n))"

definition contribution :: "CreateType option \<Rightarrow> Node \<Rightarrow> string \<Rightarrow> nat" where
  "contribution f n k =
     (if (f = None \<or> Some (designType (data n)) = f) \<and> k = design_key n then 1 else 0) +
     (if (f = None \<or> Some (codingType (data n)) = f) \<and> k = coding_key n then 1 else 0)"

definition tally :: "CreateType option \<Rightarrow> Node list \<Rightarrow> string \<Rightarrow> nat" where
  "tally f ns k = sum_list (map (\<lambda>n. contribution f n k) ns)"

text \<open>The counts object that holds \<open>m k\<close> under each of the six keys and nothing else.\<close>

definition counts_of :: "(string \<Rightarrow> nat) \<Rightarrow> (string \<rightharpoonup> number)" where
  "counts_of m = (\<lambda>k. if k \<in> set WORK_TYPES then Some (Finite (real (m k))) else None)"

subsection \<open>Example states and documents\<close>

text \<open>A parser that reads one text as one document and rejects every other text.\<close>

definition reads_as :: "string \<Rightarrow> PersistFile \<Rightarrow> string \<Rightarrow> PersistFile option" where
  "reads_as name d = (\<lambda>t. if t = name then Some d else None)"

fun state_of :: "outcome \<Rightarrow> GraphState" where
  "state_of (Thrown st) = st"
| "state_of (Done st) = st"

text \<open>The first node of the editor and a child of it, both measured by the rendering surface.\<close>

definition node_1 :: Node where
  "node_1 = (createChildNode root_parent ''1'' 0)\<lparr> width := Some 220, height := Some 150 \<rparr>"

definition node_2 :: Node where
  "node_2 = (createChildNode node_1 ''2'' default_offsetY)\<lparr> width := Some 220, height := Some 150 \<rparr>"

text \<open>
  A state of the editor after \<open>Add Node\<close>, a comment given to the new edge in the edge
  dialog, and a second edge drawn by hand (the rendering surface gives such an edge an
  id and no \<open>type\<close>).
\<close>

definition commented_state :: GraphState where
  "commented_state =
     \<lparr> nodes = [node_1, node_2],
       edges = [\<lparr> edge_id = ''e1-2'', source = ''1'', target = ''2'',
                   edge_type = Some ''smoothstep'',
                   edge_data = Some \<lparr> edge_comment = Some ''depends'' \<rparr>,
                   edge_label = Some ''depends'' \<rparr>,
                 \<lparr> edge_id = ''reactflow__edge-2-1'', source = ''2'', target = ''1'',
                   edge_type = None, edge_data = None, edge_label = None \<rparr>],
       rates = DEFAULT_RATES,
       idCounter = 3,
       selectedNodeId = None,
       selectedEdge = None,
       edgeComment = ''depends'' \<rparr>"

text \<open>A node with design \<open>{new, complex}\<close>, coding \<open>{adapt, simple}\<close> and the uploading flag set.\<close>

definition mixed_node :: Node where
  "mixed_node =
     node_1\<lparr> data := (data node_1)\<lparr> uploading := yes,
                                     designType := new, designDifficulty := complex,
                                     codingType := adapt, codingDifficulty := simple \<rparr> \<rparr>"

text \<open>
  A state the editor reaches by adding nodes \<open>"2"\<close> and \<open>"3"\<close> under the first node
  and removing \<open>"2"\<close> again: two nodes, ids \<open>"1"\<close> and \<open>"3"\<close>, the counter at \<open>4\<close>.
\<close>

definition sparse_state :: GraphState where
  "sparse_state =
     \<lparr> nodes = [node_1, createChildNode node_1 ''3'' default_offsetY],
       edges = [\<lparr> edge_id = ''e1-3'', source = ''1'', target = ''3'',
                   edge_type = Some ''smoothstep'', edge_data = None, edge_label = None \<rparr>],
       rates = DEFAULT_RATES,
       idCounter = 4,
       selectedNodeId = None,
       selectedEdge = None,
       edgeComment = [] \<rparr>"



text \<open>Documents written by hand: a rate table with one key, no rate table, a node with a kind.\<close>

definition partial_rates_document :: PersistFile where
  "partial_rates_document =
     \<lparr> doc_nodes = Some [createChildNode root_parent ''1'' 0],
       doc_edges = Some [],
       doc_rates = Some [''Design-simple'' \<mapsto> 120] \<rparr>"

definition no_rates_document :: PersistFile where
  "no_rates_document =
     \<lparr> doc_nodes = Some [createChildNode root_parent ''1'' 0],
       doc_edges = Some [],
       doc_rates = None \<rparr>"

definition tagged_document :: PersistFile where
  "tagged_document =
     \<lparr> doc_nodes = Some [(createChildNode root_parent ''1'' 0)\<lparr> node_type := Some ''input'' \<rparr>,
                         (createChildNode root_parent ''2'' 150)\<lparr> node_type := None \<rparr>],
       doc_edges = Some [\<lparr> edge_id = ''e1-2'', source = ''1'', target = ''2'',
                            edge_type = None, edge_data = None, edge_label = None \<rparr>],
       doc_rates = Some DEFAULT_RATES \<rparr>"

section \<open>The summary engine\<close>

lemma design_key_work: "design_key n \<in> set WORK_TYPES"
  by (cases "designDifficulty (data n)") (simp_all add: design_key_def WORK_TYPES_def)

lemma coding_key_work: "coding_key n \<in> set WORK_TYPES"
  by (cases "codingDifficulty (data n)") (simp_all add: coding_key_def WORK_TYPES_def)

lemma design_neq_coding: "design_key n \<noteq> coding_key n'"
  by (simp add: design_key_def coding_key_def)

lemma increment_counts_of:
  "k \<in> set WORK_TYPES \<Longrightarrow> increment (counts_of m) k = counts_of (m(k := Suc (m k)))"
  by (rule ext) (simp add: increment_def counts_of_def add.commute)

lemma count_node_counts_of:
  "count_node f (counts_of m) n = counts_of (\<lambda>k. m k + contribution f n k)"
proof -
  define m1 where "m1 = (if f = None \<or> Some (designType (data n)) = f
                         then m(design_key n := Suc (m (design_key n))) else m)"
  define m2 where "m2 = (if f = None \<or> Some (codingType (data n)) = f
                         then m1(coding_key n := Suc (m1 (coding_key n))) else m1)"
  have c1: "(if f = None \<or> Some (designType (data n)) = f
             then increment (counts_of m) (design_key n) else counts_of m) = counts_of m1"
    by (simp add: m1_def increment_counts_of design_key_work)
  have c2: "(if f = None \<or> Some (codingType (data n)) = f
             then increment (counts_of m1) (coding_key n) else counts_of m1) = counts_of m2"
    by (simp add: m2_def increment_counts_of coding_key_work)
  have "count_node f (counts_of m) n = counts_of m2"
    unfolding count_node_def Let_def
    by (simp only: design_key_def[symmetric] coding_key_def[symmetric] c1 c2)
  moreover have "m2 = (\<lambda>k. m k + contribution f n k)"
    using design_neq_coding[of n n]
    by (auto simp: m2_def m1_def contribution_def fun_eq_iff)
  ultimately show ?thesis by simp
qed

lemma foldl_count_node:
  "foldl (count_node f) (counts_of m) ns = counts_of (\<lambda>k. m k + tally f ns k)"
proof (induction ns arbitrary: m)
  case Nil
  show ?case by (simp add: tally_def)
next
  case (Cons n ns)
  show ?case
    by (simp add: count_node_counts_of Cons.IH tally_def add.assoc)
qed

lemma initial_counts_of: "initial_counts = counts_of (\<lambda>_. 0)"
  by (rule ext) (simp add: initial_counts_def counts_of_def WORK_TYPES_def)

lemma counts_final: "foldl (count_node f) initial_counts ns = counts_of (tally f ns)"
  by (simp add: initial_counts_of foldl_count_node)

lemma quantity_buildSummary:
  "k \<in> set WORK_TYPES \<Longrightarrow> quantity (buildSummary ns rs f) k = Finite (real (tally f ns k))"
  unfolding buildSummary_def Let_def counts_final quantity_def
  by (auto simp: WORK_TYPES_def summary_row_def counts_of_def)

lemma contribution_partition:
  "contribution None n k = contribution (Some new) n k + contribution (Some adapt) n k"
  by (cases "designType (data n)"; cases "codingType (data n)") (simp_all add: contribution_def)

lemma tally_partition:
  "tally None ns k = tally (Some new) ns k + tally (Some adapt) ns k"
  unfolding tally_def
  by (induction ns) (simp_all add: contribution_partition)

text \<open>
  C2. For every node list, every rate table and each of the six work types, the quantity
  the unfiltered summary reports is the quantity of the \<open>new\<close> summary plus the quantity
  of the \<open>adapt\<close> summary, and it is the number of contributions of the nodes to that
  bucket: the filter neither drops nor counts twice.
\<close>

theorem summary_filter_partition:
  assumes "k \<in> set WORK_TYPES"
  shows "quantity (buildSummary ns rs None) k =
           js_add (quantity (buildSummary ns rs (Some new)) k)
                  (quantity (buildSummary ns rs (Some adapt)) k)
         \<and> quantity (buildSummary ns rs None) k = Finite (real (tally None ns k))"
  using assms by (simp add: quantity_buildSummary tally_partition)

theorem summary_filter_partition_witness:
  "''Design-complex'' \<in> set WORK_TYPES
   \<and> quantity (buildSummary [mixed_node, node_2] DEFAULT_RATES None) ''Design-complex'' = Finite 1
   \<and> js_add (quantity (buildSummary [mixed_node, node_2] DEFAULT_RATES (Some new)) ''Design-complex'')
            (quantity (buildSummary [mixed_node, node_2] DEFAULT_RATES (Some adapt)) ''Design-complex'')
       = Finite 1"
proof -
  have k: "''Design-complex'' \<in> set WORK_TYPES"
    by (simp add: WORK_TYPES_def)
  have t: "tally None [mixed_node, node_2] ''Design-complex'' = 1"
    by (simp add: tally_def contribution_def design_key_def coding_key_def mixed_node_def
          node_2_def node_1_def createChildNode_def)
  note p = summary_filter_partition [OF k, of "[mixed_node, node_2]" DEFAULT_RATES]
  have q: "quantity (buildSummary [mixed_node, node_2] DEFAULT_RATES None) ''Design-complex'' = Finite 1"
    using p [THEN conjunct2] t by simp
  have "js_add (quantity (buildSummary [mixed_node, node_2] DEFAULT_RATES (Some new)) ''Design-complex'')
            (quantity (buildSummary [mixed_node, node_2] DEFAULT_RATES (Some adapt)) ''Design-complex'')
       = Finite 1"
    using p [THEN conjunct1] q by (rule subst)
  with k q show ?thesis by (intro conjI)
qed

lemma count_node_erase: "count_node f c (erase_uploading n) = count_node f c n"
  by (simp add: count_node_def erase_uploading_def Let_def)

lemma foldl_erase:
  "foldl (count_node f) c (map erase_uploading ns) = foldl (count_node f) c ns"
  by (induction ns arbitrary: c) (simp_all add: count_node_erase)

lemma buildSummary_erase:
  "buildSummary (map erase_uploading ns) rs f = buildSummary ns rs f"
  by (simp add: buildSummary_def foldl_erase)

text \<open>
  C9. Two node lists that are equal once every uploading flag is erased have the same
  summary rows and the same total, for every rate table and every filter.
\<close>

theorem uploading_irrelevant:
  assumes "map erase_uploading ns = map erase_uploading ns'"
  shows "buildSummary ns rs f = buildSummary ns' rs f
         \<and> total (buildSummary ns rs f) = total (buildSummary ns' rs f)"
proof -
  have "buildSummary ns rs f = buildSummary (map erase_uploading ns) rs f"
    by (simp add: buildSummary_erase)
  also have "\<dots> = buildSummary ns' rs f"
    by (simp add: assms buildSummary_erase)
  finally show ?thesis by simp
qed

theorem uploading_irrelevant_witness:
  "map erase_uploading [mixed_node] =
     map erase_uploading [mixed_node\<lparr> data := (data mixed_node)\<lparr> uploading := no \<rparr> \<rparr>]
   \<and> uploading (data mixed_node) = yes
   \<and> buildSummary [mixed_node] DEFAULT_RATES (Some new) =
       buildSummary [mixed_node\<lparr> data := (data mixed_node)\<lparr> uploading := no \<rparr> \<rparr>]
         DEFAULT_RATES (Some new)
   \<and> total (buildSummary [mixed_node] DEFAULT_RATES (Some new)) =
       total (buildSummary [mixed_node\<lparr> data := (data mixed_node)\<lparr> uploading := no \<rparr> \<rparr>]
         DEFAULT_RATES (Some new))"
proof -
  have h: "map erase_uploading [mixed_node] =
     map erase_uploading [mixed_node\<lparr> data := (data mixed_node)\<lparr> uploading := no \<rparr> \<rparr>]"
    by (simp add: erase_uploading_def)
  have u: "uploading (data mixed_node) = yes"
    by (simp add: mixed_node_def)
  show ?thesis
    using h u uploading_irrelevant [OF h, of DEFAULT_RATES "Some new"]
    by simp
qed

section \<open>The graph store\<close>







text \<open>
  C3. The counter after a load is the number of loaded nodes plus one, whatever their
  ids. Loading the document the editor writes for \<open>sparse_state\<close> (nodes \<open>"1"\<close> and
  \<open>"3"\<close>) sets the counter to \<open>3\<close>, and the next \<open>addNode\<close> makes a second node \<open>"3"\<close>.
\<close>

theorem id_collision_after_load:
  "fst (handleFileChange (reads_as ''graph.json'' (handleSave sparse_state))
          initial_state (Some ''graph.json'')) = Loaded
   \<and> map node_id (nodes (snd (handleFileChange (reads_as ''graph.json'' (handleSave sparse_state))
          initial_state (Some ''graph.json'')))) = [''1'', ''3'']
   \<and> idCounter (snd (handleFileChange (reads_as ''graph.json'' (handleSave sparse_state))
          initial_state (Some ''graph.json''))) = 3
   \<and> map node_id (nodes (state_of (addNode (snd (handleFileChange
          (reads_as ''graph.json'' (handleSave sparse_state))
          initial_state (Some ''graph.json'')))))) = [''1'', ''3'', ''3'']"
  by (simp add: handleFileChange_def reads_as_def handleSave_def load_document_def Let_def
        sparse_state_def initial_state_def enrich_node_def node_1_def createChildNode_def
        addNode_def parent_node_def selectedNode_def digit_def)

section \<open>The export geometry\<close>

lemma bounds_step_finite:
  "bounds_step \<lparr> minX = Finite a, minY = Finite b, maxX = Finite c, maxY = Finite d \<rparr> n =
     \<lparr> minX = Finite (min a (pos_x (position n))),
       minY = Finite (min b (pos_y (position n))),
       maxX = Finite (max c (pos_x (position n) + (case width n of None \<Rightarrow> 250 | Some v \<Rightarrow> v))),
       maxY = Finite (max d (pos_y (position n) + (case height n of None \<Rightarrow> 150 | Some v \<Rightarrow> v))) \<rparr>"
  by (simp add: bounds_step_def Let_def)

lemma Min_insert_min:
  fixes u v :: real
  assumes "finite S"
  shows "Min (insert (min u v) S) = Min (insert u (insert v S))"
proof (cases "S = {}")
  case True
  then show ?thesis by simp
next
  case False
  with assms show ?thesis by (simp add: min.assoc)
qed

lemma Max_insert_max:
  fixes u v :: real
  assumes "finite S"
  shows "Max (insert (max u v) S) = Max (insert u (insert v S))"
proof (cases "S = {}")
  case True
  then show ?thesis by simp
next
  case False
  with assms show ?thesis by (simp add: max.assoc)
qed

lemma foldl_bounds_finite:
  "foldl bounds_step \<lparr> minX = Finite a, minY = Finite b, maxX = Finite c, maxY = Finite d \<rparr> ns =
     \<lparr> minX = Finite (Min (insert a ((\<lambda>n. pos_x (position n)) ` set ns))),
       minY = Finite (Min (insert b ((\<lambda>n. pos_y (position n)) ` set ns))),
       maxX = Finite (Max (insert c ((\<lambda>n. pos_x (position n) +
                  (case width n of None \<Rightarrow> 250 | Some v \<Rightarrow> v)) ` set ns))),
       maxY = Finite (Max (insert d ((\<lambda>n. pos_y (position n) +
                  (case height n of None \<Rightarrow> 150 | Some v \<Rightarrow> v)) ` set ns))) \<rparr>"
proof (induction ns arbitrary: a b c d)
  case Nil
  show ?case by simp
next
  case (Cons n ns)
  have "foldl bounds_step \<lparr> minX = Finite a, minY = Finite b, maxX = Finite c, maxY = Finite d \<rparr> (n # ns) =
        foldl bounds_step (bounds_step \<lparr> minX = Finite a, minY = Finite b, maxX = Finite c, maxY = Finite d \<rparr> n) ns"
    by simp
  also have "\<dots> = \<lparr> minX = Finite (Min (insert (min a (pos_x (position n))) ((\<lambda>n. pos_x (position n)) ` set ns))),
       minY = Finite (Min (insert (min b (pos_y (position n))) ((\<lambda>n. pos_y (position n)) ` set ns))),
       maxX = Finite (Max (insert (max c (pos_x (position n) + (case width n of None \<Rightarrow> 250 | Some v \<Rightarrow> v)))
                ((\<lambda>n. pos_x (position n) + (case width n of None \<Rightarrow> 250 | Some v \<Rightarrow> v)) ` set ns))),
       maxY = Finite (Max (insert (max d (pos_y (position n) + (case height n of None \<Rightarrow> 150 | Some v \<Rightarrow> v)))
                ((\<lambda>n. pos_y (position n) + (case height n of None \<Rightarrow> 150 | Some v \<Rightarrow> v)) ` set ns))) \<rparr>"
    unfolding bounds_step_finite by (rule Cons.IH)
  also have "\<dots> = \<lparr> minX = Finite (Min (insert a ((\<lambda>n. pos_x (position n)) ` set (n # ns)))),
       minY = Finite (Min (insert b ((\<lambda>n. pos_y (position n)) ` set (n # ns)))),
       maxX = Finite (Max (insert c ((\<lambda>n. pos_x (position n) +
                  (case width n of None \<Rightarrow> 250 | Some v \<Rightarrow> v)) ` set (n # ns)))),
       maxY = Finite (Max (insert d ((\<lambda>n. pos_y (position n) +
                  (case height n of None \<Rightarrow> 150 | Some v \<Rightarrow> v)) ` set (n # ns)))) \<rparr>"
    by (simp only: Min_insert_min Max_insert_max finite_imageI finite_set list.set image_insert)
  finally show ?case .
qed

lemma bounds_step_seed:
  "bounds_step \<lparr> minX = Infinity, minY = Infinity, maxX = NegInfinity, maxY = NegInfinity \<rparr> n =
     \<lparr> minX = Finite (pos_x (position n)),
       minY = Finite (pos_y (position n)),
       maxX = Finite (pos_x (position n) + (case width n of None \<Rightarrow> 250 | Some v \<Rightarrow> v)),
       maxY = Finite (pos_y (position n) + (case height n of None \<Rightarrow> 150 | Some v \<Rightarrow> v)) \<rparr>"
  by (simp add: bounds_step_def Let_def)

lemma node_bounds_Cons:
  "node_bounds (n # ns) =
     \<lparr> minX = Finite (Min ((\<lambda>n. pos_x (position n)) ` set (n # ns))),
       minY = Finite (Min ((\<lambda>n. pos_y (position n)) ` set (n # ns))),
       maxX = Finite (Max ((\<lambda>n. pos_x (position n) +
                  (case width n of None \<Rightarrow> 250 | Some v \<Rightarrow> v)) ` set (n # ns))),
       maxY = Finite (Max ((\<lambda>n. pos_y (position n) +
                  (case height n of None \<Rightarrow> 150 | Some v \<Rightarrow> v)) ` set (n # ns))) \<rparr>"
  unfolding node_bounds_def foldl_Cons bounds_step_seed foldl_bounds_finite
  by (simp only: list.set image_insert)

lemma fullW_Cons:
  "fullW (n # ns) =
     Finite (Max ((\<lambda>n. pos_x (position n) + (case width n of None \<Rightarrow> 250 | Some v \<Rightarrow> v)) ` set (n # ns))
             - Min ((\<lambda>n. pos_x (position n)) ` set (n # ns)) + 2 * 64)"
  unfolding fullW_def node_bounds_Cons by (simp add: js_sub_def PAD_def)

lemma fullH_Cons:
  "fullH (n # ns) =
     Finite (Max ((\<lambda>n. pos_y (position n) + (case height n of None \<Rightarrow> 150 | Some v \<Rightarrow> v)) ` set (n # ns))
             - Min ((\<lambda>n. pos_y (position n)) ` set (n # ns)) + 2 * 64)"
  unfolding fullH_def node_bounds_Cons by (simp add: js_sub_def PAD_def)

lemma node_bounds_two:
  "node_bounds [a, b] =
     bounds_step (bounds_step
       \<lparr> minX = Infinity, minY = Infinity, maxX = NegInfinity, maxY = NegInfinity \<rparr> a) b"
  by (simp add: node_bounds_def)

lemma fullW_two:
  "fullW [a, b] =
     Finite (max (pos_x (position a) + (case width a of None \<Rightarrow> 250 | Some v \<Rightarrow> v))
                 (pos_x (position b) + (case width b of None \<Rightarrow> 250 | Some v \<Rightarrow> v))
             - min (pos_x (position a)) (pos_x (position b)) + 2 * 64)"
  by (simp add: fullW_def node_bounds_two bounds_step_def js_sub_def PAD_def Let_def)

lemma fullH_two:
  "fullH [a, b] =
     Finite (max (pos_y (position a) + (case height a of None \<Rightarrow> 150 | Some v \<Rightarrow> v))
                 (pos_y (position b) + (case height b of None \<Rightarrow> 150 | Some v \<Rightarrow> v))
             - min (pos_y (position a)) (pos_y (position b)) + 2 * 64)"
  by (simp add: fullH_def node_bounds_two bounds_step_def js_sub_def PAD_def Let_def)

lemma node_1_geometry:
  "position node_1 = \<lparr> pos_x = 250, pos_y = 25 \<rparr>
   \<and> width node_1 = Some 220 \<and> height node_1 = Some 150"
  by (simp add: node_1_def createChildNode_def root_parent_def)

lemma node_2_geometry:
  "position node_2 = \<lparr> pos_x = 250, pos_y = 175 \<rparr>
   \<and> width node_2 = Some 220 \<and> height node_2 = Some 150"
  by (simp add: node_2_def node_1_def createChildNode_def root_parent_def default_offsetY_def)

text \<open>
  C7. For a list of two nodes, one at \<open>(0, 0)\<close> and one at \<open>(0, 300)\<close>, both 220 wide
  and 150 high, in either order and whatever their ids, kinds and data, the padded
  bounding box is 348 wide and 578 high. The box is the one the claim describes: for any
  two nodes its width is the larger right edge minus the smaller left edge plus twice 64
  and its height the larger bottom edge minus the smaller top edge plus twice 64 (a node
  without a reported size counting as 250 by 150), and for any non-empty node list it is
  the greatest right (bottom) edge minus the least left (top) edge of all the nodes plus
  twice 64.
\<close>

theorem export_bounding_box_scenario:
  "fullW [\<lparr> node_id = i1, node_type = t1, position = \<lparr> pos_x = 0, pos_y = 0 \<rparr>, data = d1,
             width = Some 220, height = Some 150 \<rparr>,
          \<lparr> node_id = i2, node_type = t2, position = \<lparr> pos_x = 0, pos_y = 300 \<rparr>, data = d2,
             width = Some 220, height = Some 150 \<rparr>] = Finite 348
   \<and> fullH [\<lparr> node_id = i1, node_type = t1, position = \<lparr> pos_x = 0, pos_y = 0 \<rparr>, data = d1,
             width = Some 220, height = Some 150 \<rparr>,
          \<lparr> node_id = i2, node_type = t2, position = \<lparr> pos_x = 0, pos_y = 300 \<rparr>, data = d2,
             width = Some 220, height = Some 150 \<rparr>] = Finite 578
   \<and> fullW [\<lparr> node_id = i2, node_type = t2, position = \<lparr> pos_x = 0, pos_y = 300 \<rparr>, data = d2,
             width = Some 220, height = Some 150 \<rparr>,
          \<lparr> node_id = i1, node_type = t1, position = \<lparr> pos_x = 0, pos_y = 0 \<rparr>, data = d1,
             width = Some 220, height = Some 150 \<rparr>] = Finite 348
   \<and> fullH [\<lparr> node_id = i2, node_type = t2, position = \<lparr> pos_x = 0, pos_y = 300 \<rparr>, data = d2,
             width = Some 220, height = Some 150 \<rparr>,
          \<lparr> node_id = i1, node_type = t1, position = \<lparr> pos_x = 0, pos_y = 0 \<rparr>, data = d1,
             width = Some 220, height = Some 150 \<rparr>] = Finite 578
   \<and> fullW [a, b] =
       Finite (max (pos_x (position a) + (case width a of None \<Rightarrow> 250 | Some v \<Rightarrow> v))
                   (pos_x (position b) + (case width b of None \<Rightarrow> 250 | Some v \<Rightarrow> v))
               - min (pos_x (position a)) (pos_x (position b)) + 2 * 64)
   \<and> fullH [a, b] =
       Finite (max (pos_y (position a) + (case height a of None \<Rightarrow> 150 | Some v \<Rightarrow> v))
                   (pos_y (position b) + (case height b of None \<Rightarrow> 150 | Some v \<Rightarrow> v))
               - min (pos_y (position a)) (pos_y (position b)) + 2 * 64)
   \<and> fullW (n # ns) =
       Finite (Max ((\<lambda>n. pos_x (position n) + (case width n of None \<Rightarrow> 250 | Some v \<Rightarrow> v))
                      ` set (n # ns))
               - Min ((\<lambda>n. pos_x (position n)) ` set (n # ns)) + 2 * 64)
   \<and> fullH (n # ns) =
       Finite (Max ((\<lambda>n. pos_y (position n) + (case height n of None \<Rightarrow> 150 | Some v \<Rightarrow> v))
                      ` set (n # ns))
               - Min ((\<lambda>n. pos_y (position n)) ` set (n # ns)) + 2 * 64)"
proof -
  have two: "fullW [a, b] =
       Finite (max (pos_x (position a) + (case width a of None \<Rightarrow> 250 | Some v \<Rightarrow> v))
                   (pos_x (position b) + (case width b of None \<Rightarrow> 250 | Some v \<Rightarrow> v))
               - min (pos_x (position a)) (pos_x (position b)) + 2 * 64)
   \<and> fullH [a, b] =
       Finite (max (pos_y (position a) + (case height a of None \<Rightarrow> 150 | Some v \<Rightarrow> v))
                   (pos_y (position b) + (case height b of None \<Rightarrow> 150 | Some v \<Rightarrow> v))
               - min (pos_y (position a)) (pos_y (position b)) + 2 * 64)"
    by (simp only: fullW_two fullH_two simp_thms)
  have scenario: "fullW [\<lparr> node_id = i1, node_type = t1, position = \<lparr> pos_x = 0, pos_y = 0 \<rparr>, data = d1,
             width = Some 220, height = Some 150 \<rparr>,
          \<lparr> node_id = i2, node_type = t2, position = \<lparr> pos_x = 0, pos_y = 300 \<rparr>, data = d2,
             width = Some 220, height = Some 150 \<rparr>] = Finite 348
   \<and> fullH [\<lparr> node_id = i1, node_type = t1, position = \<lparr> pos_x = 0, pos_y = 0 \<rparr>, data = d1,
             width = Some 220, height = Some 150 \<rparr>,
          \<lparr> node_id = i2, node_type = t2, position = \<lparr> pos_x = 0, pos_y = 300 \<rparr>, data = d2,
             width = Some 220, height = Some 150 \<rparr>] = Finite 578
   \<and> fullW [\<lparr> node_id = i2, node_type = t2, position = \<lparr> pos_x = 0, pos_y = 300 \<rparr>, data = d2,
             width = Some 220, height = Some 150 \<rparr>,
          \<lparr> node_id = i1, node_type = t1, position = \<lparr> pos_x = 0, pos_y = 0 \<rparr>, data = d1,
             width = Some 220, height = Some 150 \<rparr>] = Finite 348
   \<and> fullH [\<lparr> node_id = i2, node_type = t2, position = \<lparr> pos_x = 0, pos_y = 300 \<rparr>, data = d2,
             width = Some 220, height = Some 150 \<rparr>,
          \<lparr> node_id = i1, node_type = t1, position = \<lparr> pos_x = 0, pos_y = 0 \<rparr>, data = d1,
             width = Some 220, height = Some 150 \<rparr>] = Finite 578"
    by (simp add: fullW_two fullH_two)
  have general: "fullW (n # ns) =
       Finite (Max ((\<lambda>n. pos_x (position n) + (case width n of None \<Rightarrow> 250 | Some v \<Rightarrow> v))
                      ` set (n # ns))
               - Min ((\<lambda>n. pos_x (position n)) ` set (n # ns)) + 2 * 64)
   \<and> fullH (n # ns) =
       Finite (Max ((\<lambda>n. pos_y (position n) + (case height n of None \<Rightarrow> 150 | Some v \<Rightarrow> v))
                      ` set (n # ns))
               - Min ((\<lambda>n. pos_y (position n)) ` set (n # ns)) + 2 * 64)"
    by (simp only: fullW_Cons fullH_Cons simp_thms)
  from scenario two general show ?thesis by (simp only: simp_thms)
qed

theorem export_bounding_box_scenario_witness:
  "fullW [node_1, node_2] = Finite 348 \<and> fullH [node_1, node_2] = Finite 428
   \<and> fullW [node_2, node_1] = Finite 348 \<and> fullH [node_2, node_1] = Finite 428"
  using export_bounding_box_scenario [of _ _ _ _ _ _ node_1 node_2]
        export_bounding_box_scenario [of _ _ _ _ _ _ node_2 node_1]
  by (simp add: node_1_geometry node_2_geometry)

section \<open>The persistence codec\<close>

lemma load_saved:
  "load_document st0 (handleSave st) =
     (Loaded,
      st0\<lparr> nodes := map enrich_node
                      (map (\<lambda>n. \<lparr> node_id = node_id n, node_type = None,
                                   position = position n, data = data n,
                                   width = None, height = None \<rparr>) (nodes st)),
           edges := map enrich_edge
                      (map (\<lambda>e. \<lparr> edge_id = edge_id e, source = source e, target = target e,
                                   edge_type = edge_type e, edge_data = None,
                                   edge_label = None \<rparr>) (edges st)),
           rates := rates st,
           idCounter := length (nodes st) + 1 \<rparr>)"
  by (simp add: load_document_def handleSave_def Let_def)

lemma fully_specified_default: "fully_specified DEFAULT_RATES"
  by (simp add: fully_specified_def DEFAULT_RATES_def WORK_TYPES_def)

text \<open>
  C1, as stated, fails. \<open>commented_state\<close> has all six rates and no dangling edge; saving
  it and loading the document gives a different state: the comment and the label of
  edge \<open>e1-2\<close> are gone, and the edge drawn by hand, which had no kind, comes back with
  the kind \<open>smoothstep\<close>.
\<close>

theorem roundtrip_counterexample:
  "fully_specified (rates commented_state)
   \<and> no_dangling_edges commented_state
   \<and> fst (handleFileChange (reads_as ''graph.json'' (handleSave commented_state))
            commented_state (Some ''graph.json'')) = Loaded
   \<and> snd (handleFileChange (reads_as ''graph.json'' (handleSave commented_state))
            commented_state (Some ''graph.json'')) \<noteq> commented_state
   \<and> map edge_label (edges commented_state) = [Some ''depends'', None]
   \<and> map edge_label (edges (snd (handleFileChange
            (reads_as ''graph.json'' (handleSave commented_state))
            commented_state (Some ''graph.json'')))) = [None, None]
   \<and> map edge_data (edges commented_state) = [Some \<lparr> edge_comment = Some ''depends'' \<rparr>, None]
   \<and> map edge_data (edges (snd (handleFileChange
            (reads_as ''graph.json'' (handleSave commented_state))
            commented_state (Some ''graph.json'')))) = [None, None]
   \<and> map edge_type (edges commented_state) = [Some ''smoothstep'', None]
   \<and> map edge_type (edges (snd (handleFileChange
            (reads_as ''graph.json'' (handleSave commented_state))
            commented_state (Some ''graph.json'')))) = [Some ''smoothstep'', Some ''smoothstep'']"
  by (simp add: fully_specified_default no_dangling_edges_def commented_state_def
        handleFileChange_def reads_as_def load_saved enrich_node_def enrich_edge_def
        node_1_def node_2_def createChildNode_def)

text \<open>
  C1, amended. For every state, loading the document written for it succeeds and gives
  a state with the same node ids, positions and data records, the same edge ids and
  endpoints, the same rate table, and for every edge the kind it had, or \<open>smoothstep\<close>
  when it had none.
\<close>

theorem roundtrip_preserves:
  assumes "JSON_parse text = Some (handleSave st)"
  shows "fst (handleFileChange JSON_parse st0 (Some text)) = Loaded
   \<and> map node_id (nodes (snd (handleFileChange JSON_parse st0 (Some text)))) = map node_id (nodes st)
   \<and> map position (nodes (snd (handleFileChange JSON_parse st0 (Some text)))) = map position (nodes st)
   \<and> map data (nodes (snd (handleFileChange JSON_parse st0 (Some text)))) = map data (nodes st)
   \<and> map edge_id (edges (snd (handleFileChange JSON_parse st0 (Some text)))) = map edge_id (edges st)
   \<and> map source (edges (snd (handleFileChange JSON_parse st0 (Some text)))) = map source (edges st)
   \<and> map target (edges (snd (handleFileChange JSON_parse st0 (Some text)))) = map target (edges st)
   \<and> map edge_type (edges (snd (handleFileChange JSON_parse st0 (Some text)))) =
       map (\<lambda>e. Some (case edge_type e of None \<Rightarrow> ''smoothstep'' | Some t \<Rightarrow> t)) (edges st)
   \<and> rates (snd (handleFileChange JSON_parse st0 (Some text))) = rates st"
proof -
  have h: "handleFileChange JSON_parse st0 (Some text) = load_document st0 (handleSave st)"
    by (simp add: handleFileChange_def assms)
  show ?thesis
    unfolding h load_saved
    by (simp add: enrich_node_def enrich_edge_def comp_def)
qed

theorem roundtrip_preserves_witness:
  "reads_as ''graph.json'' (handleSave commented_state) ''graph.json'' = Some (handleSave commented_state)
   \<and> map node_id (nodes (snd (handleFileChange (reads_as ''graph.json'' (handleSave commented_state))
       initial_state (Some ''graph.json'')))) = [''1'', ''2'']
   \<and> map edge_id (edges (snd (handleFileChange (reads_as ''graph.json'' (handleSave commented_state))
       initial_state (Some ''graph.json'')))) = [''e1-2'', ''reactflow__edge-2-1'']
   \<and> map edge_type (edges (snd (handleFileChange (reads_as ''graph.json'' (handleSave commented_state))
       initial_state (Some ''graph.json'')))) = [Some ''smoothstep'', Some ''smoothstep'']
   \<and> rates (snd (handleFileChange (reads_as ''graph.json'' (handleSave commented_state))
       initial_state (Some ''graph.json''))) = DEFAULT_RATES"
proof -
  have p: "reads_as ''graph.json'' (handleSave commented_state) ''graph.json'' =
             Some (handleSave commented_state)"
    by (simp add: reads_as_def)
  have n: "map node_id (nodes commented_state) = [''1'', ''2'']"
    by (simp add: commented_state_def node_1_def node_2_def createChildNode_def)
  have e: "map edge_id (edges commented_state) = [''e1-2'', ''reactflow__edge-2-1'']"
    by (simp add: commented_state_def)
  have t: "map (\<lambda>e. Some (case edge_type e of None \<Rightarrow> ''smoothstep'' | Some t \<Rightarrow> t))
             (edges commented_state) = [Some ''smoothstep'', Some ''smoothstep'']"
    by (simp add: commented_state_def)
  have r: "rates commented_state = DEFAULT_RATES"
    by (simp add: commented_state_def)
  show ?thesis
    using roundtrip_preserves [of "reads_as ''graph.json'' (handleSave commented_state)"
            "''graph.json''" commented_state initial_state, OF p]
    by (simp add: p n e t r)
qed

text \<open>
  C4, as stated, fails. A document whose rate table has the one key \<open>Design-simple\<close>
  loads, and the loaded table has no rate for \<open>Coding-complex\<close>, whose default is 450.
\<close>

theorem per_key_default_counterexample:
  "fst (handleFileChange (reads_as ''graph.json'' partial_rates_document)
          initial_state (Some ''graph.json'')) = Loaded
   \<and> rates (snd (handleFileChange (reads_as ''graph.json'' partial_rates_document)
          initial_state (Some ''graph.json''))) ''Design-simple'' = Some 120
   \<and> rates (snd (handleFileChange (reads_as ''graph.json'' partial_rates_document)
          initial_state (Some ''graph.json''))) ''Coding-complex'' = None
   \<and> DEFAULT_RATES ''Coding-complex'' = Some 450"
  by (simp add: handleFileChange_def reads_as_def load_document_def Let_def
        partial_rates_document_def DEFAULT_RATES_def)

text \<open>
  C4, amended. A document that parses and has its nodes and its edges loads without
  failing. When it has no rate table, the loaded table is the default table, so each of
  the six work types has its default rate; when it has one, the loaded table is that
  table as it is.
\<close>

theorem rates_on_load:
  assumes "JSON_parse text = Some d"
      and "doc_nodes d = Some ns"
      and "doc_edges d = Some es"
  shows "fst (handleFileChange JSON_parse st (Some text)) = Loaded
   \<and> (case doc_rates d of
         None \<Rightarrow> rates (snd (handleFileChange JSON_parse st (Some text))) = DEFAULT_RATES
                 \<and> fully_specified (rates (snd (handleFileChange JSON_parse st (Some text))))
       | Some r \<Rightarrow> rates (snd (handleFileChange JSON_parse st (Some text))) = r)"
  using assms
  by (simp add: handleFileChange_def load_document_def Let_def fully_specified_default
        split: option.split)

theorem rates_on_load_witness:
  "reads_as ''graph.json'' no_rates_document ''graph.json'' = Some no_rates_document
   \<and> doc_nodes no_rates_document = Some [createChildNode root_parent ''1'' 0]
   \<and> doc_edges no_rates_document = Some []
   \<and> fst (handleFileChange (reads_as ''graph.json'' no_rates_document)
          (handleRateChange initial_state ''Design-simple'' 7) (Some ''graph.json'')) = Loaded
   \<and> rates (snd (handleFileChange (reads_as ''graph.json'' no_rates_document)
          (handleRateChange initial_state ''Design-simple'' 7) (Some ''graph.json''))) = DEFAULT_RATES
   \<and> fully_specified (rates (snd (handleFileChange (reads_as ''graph.json'' no_rates_document)
          (handleRateChange initial_state ''Design-simple'' 7) (Some ''graph.json''))))"
proof -
  have p: "reads_as ''graph.json'' no_rates_document ''graph.json'' = Some no_rates_document"
    by (simp add: reads_as_def)
  have n: "doc_nodes no_rates_document = Some [createChildNode root_parent ''1'' 0]"
    by (simp add: no_rates_document_def)
  have e: "doc_edges no_rates_document = Some []"
    by (simp add: no_rates_document_def)
  have r: "doc_rates no_rates_document = None"
    by (simp add: no_rates_document_def)
  show ?thesis
    using rates_on_load [of "reads_as ''graph.json'' no_rates_document" "''graph.json''"
            no_rates_document _ _ "handleRateChange initial_state ''Design-simple'' 7", OF p n e]
    by (simp add: p n e r fully_specified_default)
qed

text \<open>
  C5, as stated, fails. A document whose first node record carries the kind \<open>input\<close>
  loads, and the loaded node keeps \<open>input\<close>: it does not carry \<open>graphNode\<close>.
\<close>

theorem retag_counterexample:
  "fst (handleFileChange (reads_as ''graph.json'' tagged_document)
          initial_state (Some ''graph.json'')) = Loaded
   \<and> map node_type (nodes (snd (handleFileChange (reads_as ''graph.json'' tagged_document)
          initial_state (Some ''graph.json'')))) = [Some ''input'', Some ''graphNode'']"
  by (simp add: handleFileChange_def reads_as_def load_document_def Let_def
        tagged_document_def enrich_node_def createChildNode_def)

text \<open>
  C5, amended. In the state loaded from a document, a node whose record carries no kind
  has the kind \<open>graphNode\<close> and a node whose record carries one keeps it; an edge whose
  record carries no kind has the kind \<open>smoothstep\<close> and an edge whose record carries one
  keeps it.
\<close>

theorem load_normalization:
  assumes "JSON_parse text = Some d"
      and "doc_nodes d = Some ns"
      and "doc_edges d = Some es"
  shows "map node_type (nodes (snd (handleFileChange JSON_parse st (Some text)))) =
           map (\<lambda>n. case node_type n of None \<Rightarrow> Some ''graphNode'' | Some t \<Rightarrow> Some t) ns
   \<and> map edge_type (edges (snd (handleFileChange JSON_parse st (Some text)))) =
           map (\<lambda>e. case edge_type e of None \<Rightarrow> Some ''smoothstep'' | Some t \<Rightarrow> Some t) es"
  using assms
  by (simp add: handleFileChange_def load_document_def Let_def enrich_node_def enrich_edge_def
        comp_def split: option.split)

theorem load_normalization_witness:
  "reads_as ''graph.json'' tagged_document ''graph.json'' = Some tagged_document
   \<and> map node_type (nodes (snd (handleFileChange (reads_as ''graph.json'' tagged_document)
          initial_state (Some ''graph.json'')))) = [Some ''input'', Some ''graphNode'']
   \<and> map edge_type (edges (snd (handleFileChange (reads_as ''graph.json'' tagged_document)
          initial_state (Some ''graph.json'')))) = [Some ''smoothstep'']"
proof -
  have p: "reads_as ''graph.json'' tagged_document ''graph.json'' = Some tagged_document"
    by (simp add: reads_as_def)
  have n: "doc_nodes tagged_document =
             Some [(createChildNode root_parent ''1'' 0)\<lparr> node_type := Some ''input'' \<rparr>,
                   (createChildNode root_parent ''2'' 150)\<lparr> node_type := None \<rparr>]"
    by (simp add: tagged_document_def)
  have e: "doc_edges tagged_document =
             Some [\<lparr> edge_id = ''e1-2'', source = ''1'', target = ''2'',
                      edge_type = None, edge_data = None, edge_label = None \<rparr>]"
    by (simp add: tagged_document_def)
  show ?thesis
    using load_normalization [of "reads_as ''graph.json'' tagged_document" "''graph.json''"
            tagged_document _ _ initial_state, OF p n e]
    by (simp add: p)
qed

text \<open>
  C6. When the text of the chosen file does not parse, the load ends in the handler's
  \<open>catch\<close> and the state (nodes, edges, rates and everything else) is the state before.
\<close>

theorem failed_parse_keeps_state:
  assumes "JSON_parse text = None"
  shows "handleFileChange JSON_parse st (Some text) = (InvalidFile, st)"
  using assms by (simp add: handleFileChange_def)

theorem failed_parse_keeps_state_witness:
  "reads_as ''graph.json'' tagged_document ''{ nodes: '' = None
   \<and> handleFileChange (reads_as ''graph.json'' tagged_document) commented_state (Some ''{ nodes: '')
       = (InvalidFile, commented_state)"
proof -
  have p: "reads_as ''graph.json'' tagged_document ''{ nodes: '' = None"
    by (simp add: reads_as_def)
  show ?thesis
    using p failed_parse_keeps_state [of "reads_as ''graph.json'' tagged_document"
              "''{ nodes: ''" commented_state, OF p]
    by simp
qed

text \<open>
  C10. Every edge entry of the saved document has the id, source, target and kind of
  its edge and neither comment data nor label; the document saved after the edge dialog
  has written a comment has the same edge entries as the one saved before.
\<close>

theorem save_projects_edges:
  "doc_edges (handleSave st) =
     Some (map (\<lambda>e. \<lparr> edge_id = edge_id e, source = source e, target = target e,
                       edge_type = edge_type e, edge_data = None, edge_label = None \<rparr>)
             (edges st))
   \<and> doc_edges (handleSave (saveEdgeComment st)) = doc_edges (handleSave st)"
  by (simp add: handleSave_def saveEdgeComment_def comp_def)

theorem save_projects_edges_witness:
  "map edge_label (edges (saveEdgeComment (commented_state\<lparr> selectedEdge := Some ''e1-2'',
                                                            edgeComment := ''blocks'' \<rparr>))) =
     [Some ''blocks'', None]
   \<and> doc_edges (handleSave (saveEdgeComment (commented_state\<lparr> selectedEdge := Some ''e1-2'',
                                                                edgeComment := ''blocks'' \<rparr>))) =
       Some [\<lparr> edge_id = ''e1-2'', source = ''1'', target = ''2'',
                edge_type = Some ''smoothstep'', edge_data = None, edge_label = None \<rparr>,
             \<lparr> edge_id = ''reactflow__edge-2-1'', source = ''2'', target = ''1'',
                edge_type = None, edge_data = None, edge_label = None \<rparr>]"
proof -
  have l: "map edge_label (edges (saveEdgeComment (commented_state\<lparr> selectedEdge := Some ''e1-2'',
                                                            edgeComment := ''blocks'' \<rparr>))) =
     [Some ''blocks'', None]"
    by (simp add: saveEdgeComment_def commented_state_def)
  have d: "doc_edges (handleSave (commented_state\<lparr> selectedEdge := Some ''e1-2'',
                                                   edgeComment := ''blocks'' \<rparr>)) =
       Some [\<lparr> edge_id = ''e1-2'', source = ''1'', target = ''2'',
                edge_type = Some ''smoothstep'', edge_data = None, edge_label = None \<rparr>,
             \<lparr> edge_id = ''reactflow__edge-2-1'', source = ''2'', target = ''1'',
                edge_type = None, edge_data = None, edge_label = None \<rparr>]"
    by (simp add: handleSave_def commented_state_def)
  show ?thesis
    using save_projects_edges [of "commented_state\<lparr> selectedEdge := Some ''e1-2'',
                                                    edgeComment := ''blocks'' \<rparr>"] l d
    by simp
qed

end
